theory Spec2Isabelle
  imports Complex_Main "HOL-Library.Word"
begin

section \<open>Host-language values\<close>

text \<open>
  A JavaScript string is a sequence of UTF-16 code units. The comment text is modelled
  that way, because the validation regex and \<open>String.prototype.trim\<close> look at single
  code units. Identifiers, qualities, locators and language codes are only compared for
  equality and emptiness and are modelled as \<open>string\<close>.
  Counters and clock readings are integer-valued numbers and are modelled as \<open>int\<close>;
  media time is only compared and assigned and is modelled as \<open>real\<close>.
\<close>

type_synonym jsstring = "16 word list"

definition ascii :: "string \<Rightarrow> jsstring" where
  "ascii s = map of_char s"

text \<open>
  ECMAScript \<open>WhiteSpace\<close> and \<open>LineTerminator\<close> code points: the characters that
  \<open>\s\<close> matches in a regular expression and that \<open>trim()\<close> strips from both ends.
\<close>

definition isWhiteSpace :: "16 word \<Rightarrow> bool" where
  "isWhiteSpace c =
     (c = 0x0009 \<or> c = 0x000A \<or> c = 0x000B \<or> c = 0x000C \<or> c = 0x000D \<or> c = 0x0020
      \<or> c = 0x00A0 \<or> c = 0x1680 \<or> (0x2000 \<le> c \<and> c \<le> 0x200A)
      \<or> c = 0x2028 \<or> c = 0x2029 \<or> c = 0x202F \<or> c = 0x205F \<or> c = 0x3000 \<or> c = 0xFEFF)"

definition trim :: "jsstring \<Rightarrow> jsstring" where
  "trim s = rev (dropWhile isWhiteSpace (rev (dropWhile isWhiteSpace s)))"

text \<open>\<open>Number.prototype.toString\<close> on an integer: its decimal digits, with a sign.\<close>

fun digits :: "nat \<Rightarrow> string" where
  "digits n = (if n < 10 then [''0123456789'' ! n]
               else digits (n div 10) @ [''0123456789'' ! (n mod 10)])"

declare digits.simps [simp del]

definition toString :: "int \<Rightarrow> string" where
  "toString i = (if i < 0 then CHR ''-'' # digits (nat (- i)) else digits (nat i))"

section \<open>Data model of the comment section\<close>

record Comment =
  id_c :: string
  user :: string
  city :: string
  text_c :: jsstring
  originalLang :: "string option"
  translatedText :: "jsstring option"
  targetLang :: "string option"
  likes :: int
  dislikes :: int
  timestamp :: int

record User =
  username :: string
  email :: string

text \<open>
  The three messages that \<open>handleCommentSubmit\<close> stores with \<open>setError\<close>; the empty
  message \<open>''\<close> is \<open>None\<close>.
\<close>

datatype SubmitError = MustBeLoggedIn | CannotBeEmpty | DisallowedCharacters

text \<open>
  The state of the \<open>CommentSection\<close> component, together with the two things it writes
  outside itself: the \<open>comments\<close> entry of \<open>localStorage\<close> and the \<open>alert\<close> boxes shown.
\<close>

record CommentSection =
  comments :: "Comment list"
  newCommentText :: jsstring
  userCity :: string
  error :: "SubmitError option"
  translatingCommentId :: "string option"
  savedComments :: "Comment list option"
  alerts :: "string list"

text \<open>
  Mounting: the first effect loads the saved collection when there is one that parses
  (\<open>None\<close> stands for an absent or unreadable entry), the second effect saves the
  collection after every render in which it was set. The write to \<open>localStorage\<close> is
  taken to succeed; when it throws, the source logs the error and goes on.
\<close>

definition persist :: "CommentSection \<Rightarrow> CommentSection" where
  "persist s = s\<lparr>savedComments := Some (comments s)\<rparr>"

definition mountCommentSection :: "Comment list option \<Rightarrow> CommentSection" where
  "mountCommentSection saved =
     persist \<lparr>comments = (case saved of None \<Rightarrow> [] | Some cs \<Rightarrow> cs),
              newCommentText = [], userCity = ''Mockville'', error = None,
              translatingCommentId = None, savedComments = saved, alerts = []\<rparr>"

definition setNewCommentText :: "jsstring \<Rightarrow> CommentSection \<Rightarrow> CommentSection" where
  "setNewCommentText t s = s\<lparr>newCommentText := t\<rparr>"

section \<open>Comment validation and submission\<close>

text \<open>
  The character class of the regex \<open>/^[a-zA-Z0-9\s.,!?'"():;\n-]*$/\<close>, member by
  member in the order of the source, and the test of a whole string against it.
\<close>

definition commentCharClass :: "16 word \<Rightarrow> bool" where
  "commentCharClass c =
     ((0x61 \<le> c \<and> c \<le> 0x7A) \<or> (0x41 \<le> c \<and> c \<le> 0x5A) \<or> (0x30 \<le> c \<and> c \<le> 0x39)
      \<or> isWhiteSpace c
      \<or> c = 0x2E \<or> c = 0x2C \<or> c = 0x21 \<or> c = 0x3F \<or> c = 0x27 \<or> c = 0x22
      \<or> c = 0x28 \<or> c = 0x29 \<or> c = 0x3A \<or> c = 0x3B \<or> c = 0x0A \<or> c = 0x2D)"

definition isValidCommentText :: "jsstring \<Rightarrow> bool" where
  "isValidCommentText txt = list_all commentCharClass txt"

text \<open>
  The allow-listed set as the specification writes it, \<open>[A-Za-z0-9 .,!?'"():;\n-]\<close>:
  of the white space only the space and the line feed.
\<close>

definition specAllowListed :: "16 word \<Rightarrow> bool" where
  "specAllowListed c =
     ((0x41 \<le> c \<and> c \<le> 0x5A) \<or> (0x61 \<le> c \<and> c \<le> 0x7A) \<or> (0x30 \<le> c \<and> c \<le> 0x39)
      \<or> c = 0x20
      \<or> c = 0x2E \<or> c = 0x2C \<or> c = 0x21 \<or> c = 0x3F \<or> c = 0x27 \<or> c = 0x22
      \<or> c = 0x28 \<or> c = 0x29 \<or> c = 0x3A \<or> c = 0x3B \<or> c = 0x0A \<or> c = 0x2D)"

text \<open>
  \<open>handleCommentSubmit\<close>. The text comes from the component's \<open>newCommentText\<close>; the two
  calls of \<open>Date.now()\<close> are the arguments \<open>nowId\<close> and \<open>nowTs\<close>.
\<close>

definition handleCommentSubmit ::
  "User option \<Rightarrow> int \<Rightarrow> int \<Rightarrow> CommentSection \<Rightarrow> CommentSection" where
  "handleCommentSubmit currentUser nowId nowTs s =
     (case currentUser of
        None \<Rightarrow> s\<lparr>error := Some MustBeLoggedIn\<rparr>
      | Some u \<Rightarrow>
          (let trimmedComment = trim (newCommentText s) in
           if trimmedComment = [] then s\<lparr>error := Some CannotBeEmpty\<rparr>
           else if \<not> isValidCommentText trimmedComment
             then s\<lparr>error := Some DisallowedCharacters\<rparr>
           else
             (let newComment =
                \<lparr>id_c = toString nowId, user = username u, city = userCity s,
                 text_c = trimmedComment, originalLang = None, translatedText = None,
                 targetLang = None, likes = 0, dislikes = 0, timestamp = nowTs\<rparr>
              in persist (s\<lparr>error := None, comments := newComment # comments s,
                            newCommentText := []\<rparr>))))"

section \<open>Likes and dislikes\<close>

definition handleLike :: "string \<Rightarrow> CommentSection \<Rightarrow> CommentSection" where
  "handleLike i s =
     persist (s\<lparr>comments :=
       map (\<lambda>c. if id_c c = i then c\<lparr>likes := likes c + 1\<rparr> else c) (comments s)\<rparr>)"

text \<open>
  \<open>handleDislike\<close>: the callback of \<open>map\<close> returns \<open>null\<close> (here \<open>None\<close>) for a comment
  to remove and raises the flag \<open>commentRemoved\<close>; \<open>filter(Boolean)\<close> drops the nulls.
\<close>

definition dislikeOne :: "string \<Rightarrow> Comment \<Rightarrow> Comment option" where
  "dislikeOne i c =
     (if id_c c = i then
        (let newDislikes = dislikes c + 1 in
         if newDislikes \<ge> 2 then None else Some (c\<lparr>dislikes := newDislikes\<rparr>))
      else Some c)"

definition handleDislike :: "string \<Rightarrow> CommentSection \<Rightarrow> CommentSection" where
  "handleDislike i s =
     (let mapped = map (dislikeOne i) (comments s);
          commentRemoved = (None \<in> set mapped);
          updatedComments = map the (filter (\<lambda>x. x \<noteq> None) mapped);
          s1 = persist (s\<lparr>comments := updatedComments\<rparr>)
      in if commentRemoved
         then s1\<lparr>alerts := alerts s1 @ [''Comment removed due to reaching 2 dislikes.'']\<rparr>
         else s1)"

section \<open>Translation\<close>

text \<open>
  \<open>ai\<close> is the client object, present exactly when \<open>API_KEY\<close> is a non-empty string.
\<close>

definition ai :: "string option \<Rightarrow> bool" where
  "ai API_KEY = (case API_KEY of None \<Rightarrow> False | Some k \<Rightarrow> k \<noteq> [])"

text \<open>
  What \<open>ai.models.generateContent\<close> does when it is called is the argument \<open>outcome\<close>:
  it answers with \<open>response.text\<close> (empty when absent) or throws.
  \<open>translateTextWithGemini\<close> returns the text it resolves to and whether the service
  was invoked.
\<close>

datatype GeminiOutcome = ResponseText jsstring | GeminiThrew

definition translateTextWithGemini ::
  "string option \<Rightarrow> GeminiOutcome \<Rightarrow> jsstring \<Rightarrow> string \<Rightarrow> jsstring \<times> bool" where
  "translateTextWithGemini API_KEY outcome txt targetLanguage =
     (if \<not> ai API_KEY then (ascii ''Translation unavailable (API key missing): '' @ txt, False)
      else if txt = [] \<or> targetLanguage = [] then (txt, False)
      else (case outcome of
              ResponseText r \<Rightarrow> (if r = [] then txt else r, True)
            | GeminiThrew \<Rightarrow> (ascii ''Translation failed: '' @ txt, True)))"

text \<open>
  \<open>handleTranslate\<close> is asynchronous. Its first part runs to the \<open>await\<close> and yields the
  call \<open>translateTextWithGemini(text, targetLang)\<close> it waits for, or nothing when it
  returns early. Its second part runs when that promise settles, on the state of that
  later moment (\<open>prevComments\<close>), and ends with the \<open>finally\<close> block.
\<close>

definition handleTranslate_begin ::
  "string option \<Rightarrow> string \<Rightarrow> string \<Rightarrow> CommentSection
     \<Rightarrow> CommentSection \<times> (jsstring \<times> string) option" where
  "handleTranslate_begin API_KEY i lang s =
     (case find (\<lambda>c. id_c c = i) (comments s) of
        None \<Rightarrow> (s, None)
      | Some commentToTranslate \<Rightarrow>
          if \<not> ai API_KEY then (s, None)
          else (s\<lparr>translatingCommentId := Some i\<rparr>, Some (text_c commentToTranslate, lang)))"

datatype AwaitResult = Fulfilled jsstring | Rejected

definition handleTranslate_resume ::
  "string \<Rightarrow> string \<Rightarrow> AwaitResult \<Rightarrow> CommentSection \<Rightarrow> CommentSection" where
  "handleTranslate_resume i lang r s =
     (let translated = (case r of Fulfilled t \<Rightarrow> t
                                | Rejected \<Rightarrow> ascii ''Translation process failed.'');
          s1 = persist (s\<lparr>comments :=
                 map (\<lambda>c. if id_c c = i
                           then c\<lparr>translatedText := Some translated, targetLang := Some lang\<rparr>
                           else c) (comments s)\<rparr>)
      in s1\<lparr>translatingCommentId := None\<rparr>)"

text \<open>
  The \<open>CommentItem\<close> of a comment: its Translate button is disabled while
  \<open>isTranslating || !ai\<close>, and a click on the enabled button runs
  \<open>handleTranslateClick\<close> with the language selected in the item.
\<close>

definition translateDisabled :: "string option \<Rightarrow> CommentSection \<Rightarrow> Comment \<Rightarrow> bool" where
  "translateDisabled API_KEY s comment =
     (translatingCommentId s = Some (id_c comment) \<or> \<not> ai API_KEY)"

definition handleTranslateClick ::
  "string option \<Rightarrow> Comment \<Rightarrow> string \<Rightarrow> CommentSection
     \<Rightarrow> CommentSection \<times> (jsstring \<times> string) option" where
  "handleTranslateClick API_KEY comment lang s =
     (if Some (text_c comment) = translatedText comment \<and> targetLang comment = Some lang
      then (s, None)
      else handleTranslate_begin API_KEY (id_c comment) lang s)"

definition clickTranslate ::
  "string option \<Rightarrow> Comment \<Rightarrow> string \<Rightarrow> CommentSection
     \<Rightarrow> CommentSection \<times> (jsstring \<times> string) option" where
  "clickTranslate API_KEY comment lang s =
     (if translateDisabled API_KEY s comment then (s, None)
      else handleTranslateClick API_KEY comment lang s)"

section \<open>Data model of the video player\<close>

record VideoSource =
  quality :: string
  url :: string

record Plan =
  id_p :: string
  name :: string
  price :: int
  timeLimitMinutes :: "real option"
  features :: "string list"

text \<open>
  The video element behind \<open>videoRef\<close>. Of the element the component reads and writes
  \<open>currentTime\<close>, \<open>paused\<close> and \<open>onloadeddata\<close>; \<open>src\<close> is written by rendering. The
  handler stored in \<open>onloadeddata\<close> is a closure over the \<open>currentTime\<close> read by the
  effect and over the \<open>isVideoPlayingBeforeQualityChange\<close> of the render that ran the
  effect; it is kept as these two values.
\<close>

record LoadedHandler =
  currentTime_h :: real
  isVideoPlayingBeforeQualityChange_h :: bool

record VideoElement =
  src :: string
  currentTime :: real
  paused :: bool
  onloadeddata :: "LoadedHandler option"

text \<open>
  What the browser does for the component: \<open>play()\<close> and \<open>pause()\<close> switch \<open>paused\<close>
  (the \<open>play\<close> and \<open>pause\<close> events they cause are delivered later, as events of their
  own), and a changed \<open>src\<close> attribute starts loading the new resource, which puts the
  playback position back to 0 and leaves the element paused until it is played.
\<close>

definition play :: "VideoElement \<Rightarrow> VideoElement" where
  "play v = v\<lparr>paused := False\<rparr>"

definition pause :: "VideoElement \<Rightarrow> VideoElement" where
  "pause v = v\<lparr>paused := True\<rparr>"

definition setSrc :: "string \<Rightarrow> VideoElement \<Rightarrow> VideoElement" where
  "setSrc u v = (if src v = u then v else v\<lparr>src := u, currentTime := 0, paused := True\<rparr>)"

text \<open>
  What the component raises at the time limit: the callback \<open>onTimeLimitReached()\<close> and
  the \<open>alert\<close> naming the plan and its minutes.
\<close>

datatype Notice = OnTimeLimitReached | LimitAlert string real

text \<open>
  The \<open>VideoPlayer\<close> component: its props \<open>sources\<close> and \<open>currentPlan\<close>, its four state
  variables, the video element, and the notices raised so far.
\<close>

record VideoPlayer =
  sources :: "VideoSource list"
  currentPlan :: Plan
  currentSourceUrl :: string
  selectedQuality :: string
  isVideoPlayingBeforeQualityChange :: bool
  timeLimitReached :: bool
  video :: VideoElement
  notified :: "Notice list"

text \<open>
  The initial state: \<open>sources[0]?.url || ''\<close> and \<open>sources[0]?.quality || ''\<close> are the
  fields of the first source, or the empty string when there is none.
\<close>

definition createVideoPlayer :: "VideoSource list \<Rightarrow> Plan \<Rightarrow> VideoPlayer" where
  "createVideoPlayer srcs plan =
     \<lparr>sources = srcs, currentPlan = plan,
      currentSourceUrl = (case srcs of [] \<Rightarrow> [] | s # _ \<Rightarrow> url s),
      selectedQuality = (case srcs of [] \<Rightarrow> [] | s # _ \<Rightarrow> quality s),
      isVideoPlayingBeforeQualityChange = False,
      timeLimitReached = False,
      video = \<lparr>src = (case srcs of [] \<Rightarrow> [] | s # _ \<Rightarrow> url s), currentTime = 0,
               paused = True, onloadeddata = None\<rparr>,
      notified = []\<rparr>"

section \<open>The effects of the video player\<close>

text \<open>
  The quality-switch effect, with dependencies
  \<open>[selectedQuality, sources, currentSourceUrl, isVideoPlayingBeforeQualityChange]\<close>.
  \<open>videoRef.current?.currentTime || 0\<close> is the element's position.
\<close>

definition qualityEffect :: "VideoPlayer \<Rightarrow> VideoPlayer" where
  "qualityEffect p =
     (case find (\<lambda>s. quality s = selectedQuality p) (sources p) of
        None \<Rightarrow> p
      | Some source \<Rightarrow>
          if url source \<noteq> currentSourceUrl p then
            p\<lparr>currentSourceUrl := url source,
              video := (video p)\<lparr>onloadeddata :=
                Some \<lparr>currentTime_h = currentTime (video p),
                      isVideoPlayingBeforeQualityChange_h =
                        isVideoPlayingBeforeQualityChange p\<rparr>\<rparr>\<rparr>
          else p)"

text \<open>
  The plan-change effect, with dependencies
  \<open>[currentPlan, isVideoPlayingBeforeQualityChange]\<close>.
\<close>

definition planEffect :: "VideoPlayer \<Rightarrow> VideoPlayer" where
  "planEffect p =
     (let p1 = p\<lparr>timeLimitReached := False\<rparr> in
      if paused (video p) \<and> isVideoPlayingBeforeQualityChange p then
        (if (case timeLimitMinutes (currentPlan p) of
               None \<Rightarrow> True
             | Some m \<Rightarrow> currentTime (video p) < m * 60)
         then p1\<lparr>video := play (video p1)\<rparr>
         else p1)
      else p1)"

definition qualityDeps ::
  "VideoPlayer \<Rightarrow> string \<times> VideoSource list \<times> string \<times> bool" where
  "qualityDeps p =
     (selectedQuality p, sources p, currentSourceUrl p, isVideoPlayingBeforeQualityChange p)"

definition planDeps :: "VideoPlayer \<Rightarrow> Plan \<times> bool" where
  "planDeps p = (currentPlan p, isVideoPlayingBeforeQualityChange p)"

text \<open>
  One render after a state change: the \<open>src\<close> attribute follows \<open>currentSourceUrl\<close>, then
  each effect runs whose dependencies differ from those of the previous render
  \<open>prev\<close>. The quality effect sets \<open>currentSourceUrl\<close>, so a state change is followed by
  two renders; \<open>rerender_settled\<close> below shows that a third one changes nothing.
\<close>

definition commitSrc :: "VideoPlayer \<Rightarrow> VideoPlayer" where
  "commitSrc p = p\<lparr>video := setSrc (currentSourceUrl p) (video p)\<rparr>"

definition renderPass :: "VideoPlayer \<Rightarrow> VideoPlayer \<Rightarrow> VideoPlayer" where
  "renderPass prev cur =
     (let p0 = commitSrc cur;
          p1 = (if qualityDeps cur \<noteq> qualityDeps prev then qualityEffect p0 else p0)
      in if planDeps cur \<noteq> planDeps prev then planEffect p1 else p1)"

definition rerender :: "VideoPlayer \<Rightarrow> VideoPlayer \<Rightarrow> VideoPlayer" where
  "rerender prev cur = renderPass cur (renderPass prev cur)"

section \<open>The handlers of the video player\<close>

definition handleQualityChange :: "string \<Rightarrow> VideoPlayer \<Rightarrow> VideoPlayer" where
  "handleQualityChange q p =
     (let p1 = (if \<not> paused (video p)
                then p\<lparr>isVideoPlayingBeforeQualityChange := True, video := pause (video p)\<rparr>
                else p\<lparr>isVideoPlayingBeforeQualityChange := False\<rparr>)
      in rerender p (p1\<lparr>selectedQuality := q\<rparr>))"

definition handleTimeUpdate :: "VideoPlayer \<Rightarrow> VideoPlayer" where
  "handleTimeUpdate p =
     (case timeLimitMinutes (currentPlan p) of
        None \<Rightarrow> p
      | Some m \<Rightarrow>
          if \<not> timeLimitReached p then
            (let limitSeconds = m * 60 in
             if currentTime (video p) \<ge> limitSeconds
             then rerender p
                    (p\<lparr>video := pause (video p), timeLimitReached := True,
                       notified := notified p @
                         [OnTimeLimitReached, LimitAlert (name (currentPlan p)) m]\<rparr>)
             else p)
          else p)"

definition onPlay :: "VideoPlayer \<Rightarrow> VideoPlayer" where
  "onPlay p = rerender p (p\<lparr>isVideoPlayingBeforeQualityChange := True\<rparr>)"

definition onPause :: "VideoPlayer \<Rightarrow> VideoPlayer" where
  "onPause p = rerender p (p\<lparr>isVideoPlayingBeforeQualityChange := False\<rparr>)"

text \<open>The handler that the quality effect stored in \<open>onloadeddata\<close>.\<close>

definition loadedData :: "VideoPlayer \<Rightarrow> VideoPlayer" where
  "loadedData p =
     (case onloadeddata (video p) of
        None \<Rightarrow> p
      | Some h \<Rightarrow>
          (let v1 = (if currentTime_h h > 0
                     then (video p)\<lparr>currentTime := currentTime_h h\<rparr> else video p);
               v2 = (if isVideoPlayingBeforeQualityChange_h h \<and> paused v1
                     then play v1 else v1)
           in p\<lparr>video := v2\<lparr>onloadeddata := None\<rparr>\<rparr>))"

text \<open>A new \<open>currentPlan\<close> prop.\<close>

definition setPlan :: "Plan \<Rightarrow> VideoPlayer \<Rightarrow> VideoPlayer" where
  "setPlan newPlan p = rerender p (p\<lparr>currentPlan := newPlan\<rparr>)"

section \<open>Sessions as sequences of events\<close>

text \<open>
  The events a mounted player receives, each run to completion before the next:
  \<^item> \<open>SelectQuality q\<close>: the change event of the quality selector;
  \<^item> \<open>TimeUpdate t\<close>: the media position has become \<open>t\<close> (by playing or by seeking) and
    the \<open>timeupdate\<close> event fires;
  \<^item> \<open>UserPlay\<close>, \<open>UserPause\<close>: the viewer uses the native controls, and the \<open>play\<close> or
    \<open>pause\<close> event fires;
  \<^item> \<open>PlayFired\<close>, \<open>PauseFired\<close>: the \<open>play\<close> or \<open>pause\<close> event that follows a \<open>play()\<close> or
    \<open>pause()\<close> called by the component itself;
  \<^item> \<open>LoadedData\<close>: the first frame of the current source is available;
  \<^item> \<open>SetPlan plan\<close>: the page passes another plan.
\<close>

datatype Event =
    SelectQuality string
  | TimeUpdate real
  | UserPlay
  | UserPause
  | PlayFired
  | PauseFired
  | LoadedData
  | SetPlan Plan

fun step :: "Event \<Rightarrow> VideoPlayer \<Rightarrow> VideoPlayer" where
  "step (SelectQuality q) p = handleQualityChange q p"
| "step (TimeUpdate t) p = handleTimeUpdate (p\<lparr>video := (video p)\<lparr>currentTime := t\<rparr>\<rparr>)"
| "step UserPlay p = onPlay (p\<lparr>video := play (video p)\<rparr>)"
| "step UserPause p = onPause (p\<lparr>video := pause (video p)\<rparr>)"
| "step PlayFired p = onPlay p"
| "step PauseFired p = onPause p"
| "step LoadedData p = loadedData p"
| "step (SetPlan plan) p = setPlan plan p"

definition run :: "Event list \<Rightarrow> VideoPlayer \<Rightarrow> VideoPlayer" where
  "run es p = foldl (\<lambda>q e. step e q) p es"

section \<open>Settled states of the video player\<close>

text \<open>
  A player state is settled when the element plays the current source and the selected
  quality, if it names a source, names the current one. Every state between two events
  is settled (\<open>settled_run\<close>).
\<close>

definition settled :: "VideoPlayer \<Rightarrow> bool" where
  "settled p =
     (src (video p) = currentSourceUrl p \<and>
      (case find (\<lambda>s. quality s = selectedQuality p) (sources p) of
         None \<Rightarrow> True
       | Some source \<Rightarrow> url source = currentSourceUrl p))"

section \<open>The translation states of the specification\<close>

text \<open>
  The \<open>Failed\<close> translation state in the specification's words: a target language and
  a human-readable fallback string are recorded on the comment. The fallback strings
  are the three the source can produce.
\<close>

definition specFailed :: "Comment \<Rightarrow> bool" where
  "specFailed c =
     (targetLang c \<noteq> None \<and>
      (translatedText c = Some (ascii ''Translation unavailable (API key missing): '' @ text_c c)
       \<or> translatedText c = Some (ascii ''Translation failed: '' @ text_c c)
       \<or> translatedText c = Some (ascii ''Translation process failed.'')))"

section \<open>Example data\<close>

text \<open>The sources and two of the plans of the application, and some comments.\<close>

definition videoSources :: "VideoSource list" where
  "videoSources =
     [\<lparr>quality = ''360p'',
       url = ''http://commondatastorage.googleapis.com/gtv-videos-bucket/sample/ForBiggerFun.mp4''\<rparr>,
      \<lparr>quality = ''480p'',
       url = ''http://commondatastorage.googleapis.com/gtv-videos-bucket/sample/ForBiggerJoyrides.mp4''\<rparr>,
      \<lparr>quality = ''720p'',
       url = ''http://commondatastorage.googleapis.com/gtv-videos-bucket/sample/ForBiggerBlazes.mp4''\<rparr>,
      \<lparr>quality = ''1080p'',
       url = ''http://commondatastorage.googleapis.com/gtv-videos-bucket/sample/ForBiggerEscapes.mp4''\<rparr>]"

definition freePlan :: Plan where
  "freePlan = \<lparr>id_p = ''free'', name = ''Free'', price = 0, timeLimitMinutes = Some 5,
               features = [''Watch videos for 5 minutes'']\<rparr>"

definition goldPlan :: Plan where
  "goldPlan = \<lparr>id_p = ''gold'', name = ''Gold'', price = 100, timeLimitMinutes = None,
               features = [''Unlimited video watching'', ''Priority Support'']\<rparr>"

definition alice :: User where
  "alice = \<lparr>username = ''alice'', email = ''alice@example.com''\<rparr>"
definition tabbedText :: jsstring where "tabbedText = [0x61, 0x09, 0x62]"
definition greatVideo :: jsstring where "greatVideo = ascii ''Great video!''"
definition scriptText :: jsstring where "scriptText = ascii ''<script>''"

definition disliked1 :: Comment where
  "disliked1 = \<lparr>id_c = ''1'', user = ''bob'', city = ''Mockville'', text_c = ascii ''Hello'',
      originalLang = None, translatedText = None, targetLang = None,
      likes = 0, dislikes = 1, timestamp = 1\<rparr>"

definition fresh2 :: Comment where
  "fresh2 = \<lparr>id_c = ''2'', user = ''carol'', city = ''Mockville'', text_c = ascii ''World'',
      originalLang = None, translatedText = None, targetLang = None,
      likes = 0, dislikes = 0, timestamp = 2\<rparr>"

definition hello1 :: Comment where
  "hello1 = \<lparr>id_c = ''1'', user = ''bob'', city = ''Mockville'', text_c = ascii ''Hello'',
      originalLang = None, translatedText = None, targetLang = None,
      likes = 0, dislikes = 0, timestamp = 1\<rparr>"

definition holaDone1 :: Comment where
  "holaDone1 = hello1\<lparr>translatedText := Some (ascii ''Hola''), targetLang := Some ''es''\<rparr>"

definition sameDone1 :: Comment where
  "sameDone1 = hello1\<lparr>translatedText := Some (ascii ''Hello''), targetLang := Some ''en''\<rparr>"

definition someKey :: "string option" where
  "someKey = Some ''key''"

section \<open>Properties of the comment section\<close>

subsection \<open>Validation and submission\<close>

text \<open>
  The class of the regex is the allow-listed set of the specification together with
  every white space character.
\<close>

lemma commentCharClass_iff:
  "commentCharClass c \<longleftrightarrow> specAllowListed c \<or> isWhiteSpace c"
  by (auto simp: commentCharClass_def specAllowListed_def isWhiteSpace_def)

lemma isValidCommentText_iff:
  "isValidCommentText t \<longleftrightarrow> (\<forall>c\<in>set t. specAllowListed c \<or> isWhiteSpace c)"
  by (simp add: isValidCommentText_def list_all_iff commentCharClass_iff)

lemma toString_1000: "toString 1000 = ''1000''"
  by (simp add: toString_def digits.simps)

text \<open>
  Claim C4 as the specification states it fails: the text \<open>a<TAB>b\<close>, submitted by a
  logged-in user, is accepted, although the tab is outside
  \<open>[A-Za-z0-9 .,!?'"():;\n-]\<close>.
\<close>

theorem submit_tab_counterexample:
  "error (handleCommentSubmit (Some alice) 1000 1001
            (setNewCommentText tabbedText (mountCommentSection None))) = None
   \<and> 0x09 \<in> set (trim (newCommentText (setNewCommentText tabbedText (mountCommentSection None))))
   \<and> \<not> specAllowListed 0x09"
  by (simp add: handleCommentSubmit_def setNewCommentText_def mountCommentSection_def persist_def
        trim_def isValidCommentText_def commentCharClass_def isWhiteSpace_def specAllowListed_def
        tabbedText_def Let_def)

text \<open>
  Claim C4, amended: \<open>handleCommentSubmit\<close> sets an error and leaves the collection and
  the saved copy unchanged if and only if there is no current user, or the trimmed text
  is empty, or the trimmed text contains a character that is neither in
  \<open>[A-Za-z0-9 .,!?'"():;\n-]\<close> nor a white space character (\<open>\s\<close>: tab, line feed,
  vertical tab, form feed, carriage return, space, no-break space and the other
  Unicode spaces). Otherwise it clears the error, puts the new comment with the trimmed
  text, \<open>likes = 0\<close>, \<open>dislikes = 0\<close> and no translation in front of the collection, and
  saves the collection.
\<close>

theorem handleCommentSubmit_validation:
  "(if currentUser = None \<or> trim (newCommentText s) = []
       \<or> (\<exists>c\<in>set (trim (newCommentText s)). \<not> specAllowListed c \<and> \<not> isWhiteSpace c)
    then error (handleCommentSubmit currentUser nowId nowTs s) \<noteq> None
       \<and> comments (handleCommentSubmit currentUser nowId nowTs s) = comments s
       \<and> savedComments (handleCommentSubmit currentUser nowId nowTs s) = savedComments s
    else error (handleCommentSubmit currentUser nowId nowTs s) = None
       \<and> comments (handleCommentSubmit currentUser nowId nowTs s) =
           \<lparr>id_c = toString nowId, user = username (the currentUser), city = userCity s,
            text_c = trim (newCommentText s), originalLang = None, translatedText = None,
            targetLang = None, likes = 0, dislikes = 0, timestamp = nowTs\<rparr> # comments s
       \<and> savedComments (handleCommentSubmit currentUser nowId nowTs s) =
           Some (comments (handleCommentSubmit currentUser nowId nowTs s)))"
  by (cases currentUser)
     (auto simp: handleCommentSubmit_def Let_def persist_def isValidCommentText_iff)

theorem handleCommentSubmit_validation_witness:
  "error (handleCommentSubmit (Some alice) 1000 1001
            (setNewCommentText scriptText (mountCommentSection None))) \<noteq> None
   \<and> comments (handleCommentSubmit (Some alice) 1000 1001
            (setNewCommentText greatVideo (mountCommentSection None)))
       = [\<lparr>id_c = ''1000'', user = ''alice'', city = ''Mockville'', text_c = greatVideo,
           originalLang = None, translatedText = None, targetLang = None,
           likes = 0, dislikes = 0, timestamp = 1001\<rparr>]"
proof -
  have t1: "trim scriptText = scriptText"
    by (simp add: trim_def scriptText_def ascii_def isWhiteSpace_def)
  have t2: "trim greatVideo = greatVideo"
    by (simp add: trim_def greatVideo_def ascii_def isWhiteSpace_def)
  have bad: "\<exists>c\<in>set scriptText. \<not> specAllowListed c \<and> \<not> isWhiteSpace c"
    by (simp add: scriptText_def ascii_def specAllowListed_def isWhiteSpace_def)
  have good: "\<not> (\<exists>c\<in>set greatVideo. \<not> specAllowListed c \<and> \<not> isWhiteSpace c)"
    by (simp add: greatVideo_def ascii_def specAllowListed_def isWhiteSpace_def)
  have ne: "greatVideo \<noteq> []"
    by (simp add: greatVideo_def ascii_def)
  show ?thesis
    using handleCommentSubmit_validation
            [where currentUser = "Some alice" and nowId = 1000 and nowTs = 1001
               and s = "setNewCommentText scriptText (mountCommentSection None)"]
          handleCommentSubmit_validation
            [where currentUser = "Some alice" and nowId = 1000 and nowTs = 1001
               and s = "setNewCommentText greatVideo (mountCommentSection None)"]
    by (simp add: setNewCommentText_def mountCommentSection_def persist_def t1 t2 bad good ne
          toString_1000 alice_def)
qed

text \<open>
  Claim C10 fails on the code: the identifier of a comment is the clock reading
  \<open>Date.now().toString()\<close>, so two submissions at the same reading give two different
  comments with the same identifier.
\<close>

theorem submit_same_clock_duplicate_ids:
  "map id_c (comments
      (handleCommentSubmit (Some alice) 1000 1000
         (setNewCommentText (ascii ''b'')
            (handleCommentSubmit (Some alice) 1000 1000
               (setNewCommentText (ascii ''a'') (mountCommentSection None))))))
     = [''1000'', ''1000'']
   \<and> map text_c (comments
      (handleCommentSubmit (Some alice) 1000 1000
         (setNewCommentText (ascii ''b'')
            (handleCommentSubmit (Some alice) 1000 1000
               (setNewCommentText (ascii ''a'') (mountCommentSection None))))))
     = [ascii ''b'', ascii ''a'']"
  by (simp add: handleCommentSubmit_def setNewCommentText_def mountCommentSection_def persist_def
        trim_def isValidCommentText_def commentCharClass_def isWhiteSpace_def toString_1000
        Let_def ascii_def)

subsection \<open>Likes and dislikes\<close>

lemma dislike_filter_other:
  "filter (\<lambda>c. id_c c \<noteq> i) (map the (filter (\<lambda>x. x \<noteq> None) (map (dislikeOne i) cs)))
     = filter (\<lambda>c. id_c c \<noteq> i) cs"
  by (induction cs) (auto simp: dislikeOne_def Let_def)

lemma dislike_filter_same:
  "filter (\<lambda>c. id_c c = i) (map the (filter (\<lambda>x. x \<noteq> None) (map (dislikeOne i) cs)))
     = map (\<lambda>c. c\<lparr>dislikes := dislikes c + 1\<rparr>)
         (filter (\<lambda>c. id_c c = i \<and> dislikes c + 1 < 2) cs)"
  by (induction cs) (auto simp: dislikeOne_def Let_def)

lemma dislike_removed_iff:
  "None \<in> set (map (dislikeOne i) cs) \<longleftrightarrow> (\<exists>c\<in>set cs. id_c c = i \<and> dislikes c + 1 \<ge> 2)"
  by (induction cs) (auto simp: dislikeOne_def Let_def)

lemma dislike_absent:
  "i \<notin> id_c ` set cs \<Longrightarrow> map the (filter (\<lambda>x. x \<noteq> None) (map (dislikeOne i) cs)) = cs"
  by (induction cs) (auto simp: dislikeOne_def)

lemma like_absent:
  "i \<notin> id_c ` set cs \<Longrightarrow> map (\<lambda>c. if id_c c = i then c\<lparr>likes := likes c + 1\<rparr> else c) cs = cs"
  by (induction cs) auto

text \<open>
  Claim C5: \<open>handleDislike i\<close> leaves the comments with another identifier as they are,
  in their order; of the comments with identifier \<open>i\<close> it keeps exactly those whose
  dislikes stay below 2 after the increment, each with \<open>dislikes\<close> incremented by 1, and
  removes the others from the collection; it shows the removal alert exactly when a
  comment was removed; and it sets no error. When no comment has the identifier \<open>i\<close>,
  \<open>handleDislike i\<close> and \<open>handleLike i\<close> leave the collection unchanged, show no alert
  and set no error.
\<close>

theorem handleDislike_threshold:
  "filter (\<lambda>c. id_c c \<noteq> i) (comments (handleDislike i s)) = filter (\<lambda>c. id_c c \<noteq> i) (comments s)
   \<and> filter (\<lambda>c. id_c c = i) (comments (handleDislike i s))
       = map (\<lambda>c. c\<lparr>dislikes := dislikes c + 1\<rparr>)
           (filter (\<lambda>c. id_c c = i \<and> dislikes c + 1 < 2) (comments s))
   \<and> alerts (handleDislike i s)
       = alerts s @ (if \<exists>c\<in>set (comments s). id_c c = i \<and> dislikes c + 1 \<ge> 2
                     then [''Comment removed due to reaching 2 dislikes.''] else [])
   \<and> error (handleDislike i s) = error s
   \<and> error (handleLike i s) = error s
   \<and> (i \<notin> id_c ` set (comments s) \<longrightarrow>
        comments (handleDislike i s) = comments s \<and> alerts (handleDislike i s) = alerts s
        \<and> comments (handleLike i s) = comments s \<and> alerts (handleLike i s) = alerts s)"
proof -
  let ?cs = "comments s"
  have cD: "comments (handleDislike i s) = map the (filter (\<lambda>x. x \<noteq> None) (map (dislikeOne i) ?cs))"
    by (simp add: handleDislike_def Let_def persist_def)
  have cL: "comments (handleLike i s)
      = map (\<lambda>c. if id_c c = i then c\<lparr>likes := likes c + 1\<rparr> else c) ?cs"
    by (simp add: handleLike_def persist_def)
  have aD: "alerts (handleDislike i s)
      = alerts s @ (if None \<in> set (map (dislikeOne i) ?cs)
                    then [''Comment removed due to reaching 2 dislikes.''] else [])"
    by (simp add: handleDislike_def Let_def persist_def)
  have c1: "filter (\<lambda>c. id_c c \<noteq> i) (comments (handleDislike i s)) = filter (\<lambda>c. id_c c \<noteq> i) ?cs"
    unfolding cD by (rule dislike_filter_other)
  have c2: "filter (\<lambda>c. id_c c = i) (comments (handleDislike i s))
       = map (\<lambda>c. c\<lparr>dislikes := dislikes c + 1\<rparr>)
           (filter (\<lambda>c. id_c c = i \<and> dislikes c + 1 < 2) ?cs)"
    unfolding cD by (rule dislike_filter_same)
  have c3: "alerts (handleDislike i s)
       = alerts s @ (if \<exists>c\<in>set ?cs. id_c c = i \<and> dislikes c + 1 \<ge> 2
                     then [''Comment removed due to reaching 2 dislikes.''] else [])"
    unfolding aD dislike_removed_iff by (rule refl)
  have c4: "error (handleDislike i s) = error s"
    by (simp add: handleDislike_def Let_def persist_def)
  have c5: "error (handleLike i s) = error s"
    by (simp add: handleLike_def persist_def)
  have c6: "comments (handleDislike i s) = ?cs \<and> alerts (handleDislike i s) = alerts s
        \<and> comments (handleLike i s) = ?cs \<and> alerts (handleLike i s) = alerts s"
    if absent: "i \<notin> id_c ` set ?cs"
  proof -
    from absent have no: "\<not> (\<exists>c\<in>set ?cs. id_c c = i \<and> dislikes c + 1 \<ge> 2)"
      by auto
    have "alerts (handleLike i s) = alerts s"
      by (simp add: handleLike_def persist_def)
    moreover have "alerts (handleDislike i s) = alerts s"
      unfolding c3 using no by simp
    moreover have "comments (handleDislike i s) = ?cs"
      unfolding cD using absent by (rule dislike_absent)
    moreover have "comments (handleLike i s) = ?cs"
      unfolding cL using absent by (rule like_absent)
    ultimately show ?thesis by simp
  qed
  from c1 c2 c3 c4 c5 c6 show ?thesis by blast
qed

theorem handleDislike_threshold_witness:
  "comments (handleDislike ''1'' (mountCommentSection (Some [disliked1, fresh2]))) = [fresh2]
   \<and> alerts (handleDislike ''1'' (mountCommentSection (Some [disliked1, fresh2])))
       = [''Comment removed due to reaching 2 dislikes.'']
   \<and> comments (handleDislike ''2'' (mountCommentSection (Some [disliked1, fresh2])))
       = [disliked1, fresh2\<lparr>dislikes := 1\<rparr>]
   \<and> ''1'' \<notin> id_c ` set (comments (mountCommentSection (Some [fresh2])))
   \<and> comments (handleDislike ''1'' (mountCommentSection (Some [fresh2]))) = [fresh2]
   \<and> comments (handleLike ''1'' (mountCommentSection (Some [fresh2]))) = [fresh2]
   \<and> alerts (handleDislike ''1'' (mountCommentSection (Some [fresh2]))) = []"
proof -
  have absent: "''1'' \<notin> id_c ` set (comments (mountCommentSection (Some [fresh2])))"
    by (simp add: mountCommentSection_def persist_def fresh2_def)
  have a: "comments (handleDislike ''1'' (mountCommentSection (Some [disliked1, fresh2]))) = [fresh2]
    \<and> alerts (handleDislike ''1'' (mountCommentSection (Some [disliked1, fresh2])))
       = [''Comment removed due to reaching 2 dislikes.'']
    \<and> comments (handleDislike ''2'' (mountCommentSection (Some [disliked1, fresh2])))
       = [disliked1, fresh2\<lparr>dislikes := 1\<rparr>]"
    by (simp add: handleDislike_def dislikeOne_def Let_def mountCommentSection_def persist_def
          disliked1_def fresh2_def)
  from handleDislike_threshold [of "''1''" "mountCommentSection (Some [fresh2])"] absent
  have b: "comments (handleDislike ''1'' (mountCommentSection (Some [fresh2])))
             = comments (mountCommentSection (Some [fresh2]))
           \<and> comments (handleLike ''1'' (mountCommentSection (Some [fresh2])))
             = comments (mountCommentSection (Some [fresh2]))
           \<and> alerts (handleDislike ''1'' (mountCommentSection (Some [fresh2])))
             = alerts (mountCommentSection (Some [fresh2]))"
    by blast
  have c: "comments (mountCommentSection (Some [fresh2])) = [fresh2]
           \<and> alerts (mountCommentSection (Some [fresh2])) = []"
    by (simp add: mountCommentSection_def persist_def)
  from a b c absent show ?thesis by simp
qed

subsection \<open>Translation\<close>

text \<open>
  Claim C6 as the specification states it fails. \<open>handleTranslate\<close> has no check for a
  request in flight: called for comment 1 while its first request is outstanding, it
  issues a second one. Through the buttons the same happens once a request for another
  comment has been started, because \<open>translatingCommentId\<close> tracks one comment only.
  And a comment whose translation to \<open>es\<close> is stored is translated to \<open>es\<close> again, with a
  call of the service, because \<open>handleTranslateClick\<close> compares the stored translation
  with the comment's own text.
\<close>

theorem translate_dedup_counterexample:
  "snd (handleTranslate_begin someKey ''1'' ''fr''
          (fst (handleTranslate_begin someKey ''1'' ''es'' (mountCommentSection (Some [hello1, fresh2])))))
     = Some (ascii ''Hello'', ''fr'')
   \<and> snd (clickTranslate someKey hello1 ''fr''
          (fst (clickTranslate someKey fresh2 ''es''
             (fst (clickTranslate someKey hello1 ''es'' (mountCommentSection (Some [hello1, fresh2])))))))
     = Some (ascii ''Hello'', ''fr'')
   \<and> snd (clickTranslate someKey holaDone1 ''es'' (mountCommentSection (Some [holaDone1])))
     = Some (ascii ''Hello'', ''es'')
   \<and> snd (translateTextWithGemini someKey (ResponseText (ascii ''Hola'')) (ascii ''Hello'') ''es'')"
  by (simp add: handleTranslate_begin_def clickTranslate_def handleTranslateClick_def
        translateDisabled_def translateTextWithGemini_def ai_def someKey_def
        mountCommentSection_def persist_def hello1_def fresh2_def holaDone1_def ascii_def)

text \<open>
  Claim C6, amended: a click on Translate for a comment whose identifier is the current
  \<open>translatingCommentId\<close> does nothing and issues no request (the button is disabled;
  there is no \<open>AlreadyInFlight\<close> result, and one identifier is tracked at a time); and a
  click for the stored target language does nothing and issues no request when the
  stored translation equals the comment's own text.
\<close>

theorem clickTranslate_guards:
  "(translatingCommentId s = Some (id_c c) \<longrightarrow> clickTranslate API_KEY c lang s = (s, None))
   \<and> (translatedText c = Some (text_c c) \<and> targetLang c = Some lang
        \<longrightarrow> clickTranslate API_KEY c lang s = (s, None))"
  by (simp add: clickTranslate_def handleTranslateClick_def translateDisabled_def)

theorem clickTranslate_guards_witness:
  "translatingCommentId (fst (clickTranslate someKey hello1 ''es''
       (mountCommentSection (Some [hello1, fresh2])))) = Some (id_c hello1)
   \<and> snd (clickTranslate someKey hello1 ''es'' (mountCommentSection (Some [hello1, fresh2])))
       = Some (ascii ''Hello'', ''es'')
   \<and> clickTranslate someKey hello1 ''fr''
        (fst (clickTranslate someKey hello1 ''es'' (mountCommentSection (Some [hello1, fresh2]))))
       = (fst (clickTranslate someKey hello1 ''es'' (mountCommentSection (Some [hello1, fresh2]))),
          None)
   \<and> translatedText sameDone1 = Some (text_c sameDone1) \<and> targetLang sameDone1 = Some ''en''
   \<and> clickTranslate someKey sameDone1 ''en'' (mountCommentSection (Some [sameDone1]))
       = (mountCommentSection (Some [sameDone1]), None)"
proof -
  let ?s0 = "mountCommentSection (Some [hello1, fresh2])"
  let ?s1 = "fst (clickTranslate someKey hello1 ''es'' ?s0)"
  have t: "translatingCommentId ?s1 = Some (id_c hello1)"
    by (simp add: clickTranslate_def handleTranslateClick_def translateDisabled_def
          handleTranslate_begin_def ai_def someKey_def mountCommentSection_def persist_def
          hello1_def)
  have r: "snd (clickTranslate someKey hello1 ''es'' ?s0) = Some (ascii ''Hello'', ''es'')"
    by (simp add: clickTranslate_def handleTranslateClick_def translateDisabled_def
          handleTranslate_begin_def ai_def someKey_def mountCommentSection_def persist_def
          hello1_def)
  have d: "translatedText sameDone1 = Some (text_c sameDone1) \<and> targetLang sameDone1 = Some ''en''"
    by (simp add: sameDone1_def hello1_def)
  from clickTranslate_guards [of ?s1 hello1 someKey "''fr''"] t
  have a: "clickTranslate someKey hello1 ''fr'' ?s1 = (?s1, None)"
    by blast
  from clickTranslate_guards [of "mountCommentSection (Some [sameDone1])" sameDone1 someKey "''en''"] d
  have b: "clickTranslate someKey sameDone1 ''en'' (mountCommentSection (Some [sameDone1]))
       = (mountCommentSection (Some [sameDone1]), None)"
    by blast
  from t r a b d show ?thesis by blast
qed

lemma translation_absent:
  "i \<notin> id_c ` set cs \<Longrightarrow>
   map (\<lambda>c. if id_c c = i then c\<lparr>translatedText := Some t, targetLang := Some lang\<rparr> else c) cs
     = cs"
  by (induction cs) auto

text \<open>
  Claim C7: when the awaited translation settles and no comment has the identifier
  any more, the second part of \<open>handleTranslate\<close> leaves the collection unchanged, sets
  no error and shows no alert; the saved copy is the unchanged collection.
\<close>

theorem handleTranslate_resume_absent:
  assumes "i \<notin> id_c ` set (comments s)"
  shows "comments (handleTranslate_resume i lang r s) = comments s
         \<and> error (handleTranslate_resume i lang r s) = error s
         \<and> alerts (handleTranslate_resume i lang r s) = alerts s
         \<and> savedComments (handleTranslate_resume i lang r s) = Some (comments s)"
  using assms
  by (simp add: handleTranslate_resume_def Let_def persist_def translation_absent)

theorem handleTranslate_resume_absent_witness:
  "''1'' \<notin> id_c ` set (comments (handleDislike ''1''
       (fst (handleTranslate_begin someKey ''1'' ''es'' (mountCommentSection (Some [disliked1]))))))
   \<and> snd (handleTranslate_begin someKey ''1'' ''es'' (mountCommentSection (Some [disliked1])))
       = Some (ascii ''Hello'', ''es'')
   \<and> comments (handleTranslate_resume ''1'' ''es'' (Fulfilled (ascii ''Hola''))
        (handleDislike ''1''
          (fst (handleTranslate_begin someKey ''1'' ''es'' (mountCommentSection (Some [disliked1]))))))
       = []"
proof -
  let ?s = "handleDislike ''1''
       (fst (handleTranslate_begin someKey ''1'' ''es'' (mountCommentSection (Some [disliked1]))))"
  have cs: "comments ?s = []"
    by (simp add: handleDislike_def dislikeOne_def Let_def handleTranslate_begin_def ai_def
          someKey_def mountCommentSection_def persist_def disliked1_def)
  then have absent: "''1'' \<notin> id_c ` set (comments ?s)"
    by simp
  have req: "snd (handleTranslate_begin someKey ''1'' ''es'' (mountCommentSection (Some [disliked1])))
       = Some (ascii ''Hello'', ''es'')"
    by (simp add: handleTranslate_begin_def ai_def someKey_def mountCommentSection_def
          persist_def disliked1_def)
  from handleTranslate_resume_absent [OF absent, of "''es''" "Fulfilled (ascii ''Hola'')"] cs absent req
  show ?thesis by simp
qed

text \<open>
  Claim C8 as the specification states it fails: without a credential,
  \<open>handleTranslate\<close> returns at once and records nothing on the comment, which stays
  without translation and without target language; it is not put into a \<open>Failed\<close>
  state.
\<close>

theorem translate_unavailable_counterexample:
  "handleTranslate_begin None ''1'' ''es'' (mountCommentSection (Some [hello1]))
     = (mountCommentSection (Some [hello1]), None)
   \<and> comments (mountCommentSection (Some [hello1])) = [hello1]
   \<and> \<not> specFailed hello1
   \<and> translatedText hello1 = None \<and> targetLang hello1 = None"
  by (simp add: handleTranslate_begin_def ai_def mountCommentSection_def persist_def
        hello1_def specFailed_def)

text \<open>
  Claim C8, amended: without a credential, \<open>handleTranslate\<close> and a click on Translate
  change nothing and issue no request, so the comment keeps the translation state it
  had; the Translate button of every comment is disabled; and
  \<open>translateTextWithGemini\<close>, were it called, would resolve to the
  \<open>Translation unavailable\<close> text without invoking the service.
\<close>

theorem translate_unavailable_noop:
  assumes "\<not> ai API_KEY"
  shows "handleTranslate_begin API_KEY i lang s = (s, None)
         \<and> clickTranslate API_KEY c lang s = (s, None)
         \<and> translateDisabled API_KEY s c
         \<and> translateTextWithGemini API_KEY outcome txt lang
             = (ascii ''Translation unavailable (API key missing): '' @ txt, False)"
  using assms
  by (simp add: handleTranslate_begin_def clickTranslate_def translateDisabled_def
        translateTextWithGemini_def split: option.splits)

theorem translate_unavailable_noop_witness:
  "\<not> ai None
   \<and> handleTranslate_begin None ''1'' ''es'' (mountCommentSection (Some [hello1]))
       = (mountCommentSection (Some [hello1]), None)
   \<and> translateDisabled None (mountCommentSection (Some [hello1])) hello1
   \<and> \<not> translateDisabled someKey (mountCommentSection (Some [hello1])) hello1"
proof -
  have na: "\<not> ai None" by (simp add: ai_def)
  have en: "\<not> translateDisabled someKey (mountCommentSection (Some [hello1])) hello1"
    by (simp add: translateDisabled_def ai_def someKey_def mountCommentSection_def persist_def)
  from translate_unavailable_noop [OF na, of "''1''" "''es''" "mountCommentSection (Some [hello1])" hello1] na en
  show ?thesis by simp
qed

section \<open>Properties of the video player\<close>

subsection \<open>Rendering\<close>

lemma commitSrc_settled: "settled p \<Longrightarrow> commitSrc p = p"
  by (simp add: settled_def commitSrc_def setSrc_def)

lemma qualityEffect_settled: "settled p \<Longrightarrow> qualityEffect p = p"
  by (simp add: settled_def qualityEffect_def split: option.splits)

lemma planEffect_fields:
  "sources (planEffect p) = sources p"
  "currentPlan (planEffect p) = currentPlan p"
  "currentSourceUrl (planEffect p) = currentSourceUrl p"
  "selectedQuality (planEffect p) = selectedQuality p"
  "isVideoPlayingBeforeQualityChange (planEffect p) = isVideoPlayingBeforeQualityChange p"
  "notified (planEffect p) = notified p"
  "src (video (planEffect p)) = src (video p)"
  "currentTime (video (planEffect p)) = currentTime (video p)"
  "onloadeddata (video (planEffect p)) = onloadeddata (video p)"
  "\<not> timeLimitReached (planEffect p)"
  by (simp_all add: planEffect_def Let_def play_def)

lemma planEffect_settled: "settled p \<Longrightarrow> settled (planEffect p)"
  by (simp add: settled_def planEffect_fields split: option.splits)

lemma planEffect_deps:
  "qualityDeps (planEffect p) = qualityDeps p" "planDeps (planEffect p) = planDeps p"
  by (simp_all add: qualityDeps_def planDeps_def planEffect_fields)

lemma renderPass_settled:
  "settled cur \<Longrightarrow>
   renderPass prev cur = (if planDeps cur \<noteq> planDeps prev then planEffect cur else cur)"
  by (simp add: renderPass_def Let_def commitSrc_settled qualityEffect_settled)

lemma rerender_of_settled:
  "settled cur \<Longrightarrow>
   rerender prev cur = (if planDeps cur \<noteq> planDeps prev then planEffect cur else cur)"
  by (simp add: rerender_def renderPass_settled planEffect_settled planEffect_deps)

lemma qualityEffect_fields:
  "sources (qualityEffect p) = sources p"
  "currentPlan (qualityEffect p) = currentPlan p"
  "selectedQuality (qualityEffect p) = selectedQuality p"
  "isVideoPlayingBeforeQualityChange (qualityEffect p) = isVideoPlayingBeforeQualityChange p"
  "timeLimitReached (qualityEffect p) = timeLimitReached p"
  "notified (qualityEffect p) = notified p"
  "src (video (qualityEffect p)) = src (video p)"
  "currentTime (video (qualityEffect p)) = currentTime (video p)"
  "paused (video (qualityEffect p)) = paused (video p)"
  by (simp_all add: qualityEffect_def split: option.splits)

lemma qualityEffect_matches:
  "case find (\<lambda>s. quality s = selectedQuality p) (sources p) of
     None \<Rightarrow> True
   | Some source \<Rightarrow> url source = currentSourceUrl (qualityEffect p)"
  by (simp add: qualityEffect_def split: option.splits)

lemma commitSrc_fields:
  "sources (commitSrc p) = sources p"
  "currentPlan (commitSrc p) = currentPlan p"
  "selectedQuality (commitSrc p) = selectedQuality p"
  "currentSourceUrl (commitSrc p) = currentSourceUrl p"
  "isVideoPlayingBeforeQualityChange (commitSrc p) = isVideoPlayingBeforeQualityChange p"
  "timeLimitReached (commitSrc p) = timeLimitReached p"
  "notified (commitSrc p) = notified p"
  "src (video (commitSrc p)) = currentSourceUrl p"
  by (simp_all add: commitSrc_def setSrc_def)

lemma commitSrc_deps:
  "qualityDeps (commitSrc p) = qualityDeps p" "planDeps (commitSrc p) = planDeps p"
  by (simp_all add: qualityDeps_def planDeps_def commitSrc_fields)

lemma settled_commitSrc:
  assumes "case find (\<lambda>s. quality s = selectedQuality p) (sources p) of
             None \<Rightarrow> True | Some source \<Rightarrow> url source = currentSourceUrl p"
  shows "settled (commitSrc p)"
  using assms by (simp add: settled_def commitSrc_fields split: option.splits)

lemma planEffect_matches:
  assumes "case find (\<lambda>s. quality s = selectedQuality p) (sources p) of
             None \<Rightarrow> True | Some source \<Rightarrow> url source = currentSourceUrl p"
  shows "case find (\<lambda>s. quality s = selectedQuality (planEffect p)) (sources (planEffect p)) of
             None \<Rightarrow> True | Some source \<Rightarrow> url source = currentSourceUrl (planEffect p)"
  using assms by (simp add: planEffect_fields split: option.splits)

lemma qualityEffect_matches':
  "case find (\<lambda>s. quality s = selectedQuality (qualityEffect p)) (sources (qualityEffect p)) of
     None \<Rightarrow> True
   | Some source \<Rightarrow> url source = currentSourceUrl (qualityEffect p)"
  using qualityEffect_matches [of p] by (simp add: qualityEffect_fields)

lemma qualityEffect_planDeps: "planDeps (qualityEffect p) = planDeps p"
  by (simp add: planDeps_def qualityEffect_fields)

lemma rerender_after_qualityEffect:
  assumes qd: "qualityDeps cur \<noteq> qualityDeps prev"
  shows "settled (rerender prev cur)"
proof -
  let ?p1 = "qualityEffect (commitSrc cur)"
  let ?r1 = "renderPass prev cur"
  have r1: "?r1 = (if planDeps cur \<noteq> planDeps prev then planEffect ?p1 else ?p1)"
    using qd by (simp add: renderPass_def Let_def)
  have m: "case find (\<lambda>s. quality s = selectedQuality ?r1) (sources ?r1) of
             None \<Rightarrow> True | Some source \<Rightarrow> url source = currentSourceUrl ?r1"
    unfolding r1 by (simp add: planEffect_matches qualityEffect_matches')
  then have st: "settled (commitSrc ?r1)"
    by (rule settled_commitSrc)
  have pd: "planDeps ?r1 = planDeps cur"
    by (simp add: r1 planEffect_deps qualityEffect_planDeps commitSrc_deps)
  have "rerender prev cur
      = (if qualityDeps ?r1 \<noteq> qualityDeps cur then qualityEffect (commitSrc ?r1) else commitSrc ?r1)"
    by (simp add: rerender_def renderPass_def [of cur] Let_def pd)
  also have "\<dots> = commitSrc ?r1"
    using st by (simp add: qualityEffect_settled)
  finally show ?thesis using st by simp
qed

lemma settled_rerender:
  assumes "settled prev"
    and "sources cur = sources prev"
    and "currentSourceUrl cur = currentSourceUrl prev"
    and "src (video cur) = src (video prev)"
  shows "settled (rerender prev cur)"
proof (cases "settled cur")
  case True
  then show ?thesis
    by (simp add: rerender_of_settled planEffect_settled)
next
  case False
  with assms have sel: "selectedQuality cur \<noteq> selectedQuality prev"
    by (auto simp: settled_def split: option.splits)
  then have "qualityDeps cur \<noteq> qualityDeps prev"
    by (simp add: qualityDeps_def)
  then show ?thesis by (rule rerender_after_qualityEffect)
qed

lemma settled_video:
  "settled p \<Longrightarrow> src v = src (video p) \<Longrightarrow> settled (p\<lparr>video := v\<rparr>)"
  by (simp add: settled_def split: option.splits)

lemma settled_create: "settled (createVideoPlayer srcs plan)"
  by (cases srcs) (simp_all add: settled_def createVideoPlayer_def)

lemma settled_handleQualityChange: "settled p \<Longrightarrow> settled (handleQualityChange q p)"
  unfolding handleQualityChange_def Let_def
  by (rule settled_rerender) (simp_all add: pause_def)

lemma settled_handleTimeUpdate: "settled p \<Longrightarrow> settled (handleTimeUpdate p)"
  unfolding handleTimeUpdate_def Let_def
  by (auto split: option.splits intro!: settled_rerender simp: pause_def)

lemma settled_onPlay: "settled p \<Longrightarrow> settled (onPlay p)"
  unfolding onPlay_def by (rule settled_rerender) simp_all

lemma settled_onPause: "settled p \<Longrightarrow> settled (onPause p)"
  unfolding onPause_def by (rule settled_rerender) simp_all

lemma settled_setPlan: "settled p \<Longrightarrow> settled (setPlan plan p)"
  unfolding setPlan_def by (rule settled_rerender) simp_all

lemma settled_loadedData: "settled p \<Longrightarrow> settled (loadedData p)"
  by (auto simp: loadedData_def Let_def play_def settled_def split: option.splits)

lemma settled_step: "settled p \<Longrightarrow> settled (step e p)"
  by (cases e)
     (simp_all add: settled_handleQualityChange settled_handleTimeUpdate settled_onPlay
        settled_onPause settled_setPlan settled_loadedData settled_video play_def pause_def)

lemma settled_run: "settled p \<Longrightarrow> settled (run es p)"
  unfolding run_def by (induction es arbitrary: p) (simp_all add: settled_step)

lemma planDeps_renderPass: "planDeps (renderPass prev cur) = planDeps cur"
  by (simp add: renderPass_def Let_def planEffect_deps qualityEffect_planDeps commitSrc_deps)

lemma commitSrc_idem: "commitSrc (commitSrc p) = commitSrc p"
  by (simp add: commitSrc_def setSrc_def)

lemma rerender_commit: "rerender prev cur = commitSrc (renderPass prev cur)"
proof (cases "qualityDeps (renderPass prev cur) = qualityDeps cur")
  case True
  then show ?thesis
    by (simp add: rerender_def renderPass_def [of cur] Let_def planDeps_renderPass)
next
  case False
  let ?p1 = "qualityEffect (commitSrc cur)"
  let ?r1 = "renderPass prev cur"
  from False have qd: "qualityDeps cur \<noteq> qualityDeps prev"
    by (auto simp: renderPass_def Let_def planEffect_deps commitSrc_deps split: if_splits)
  then have r1: "?r1 = (if planDeps cur \<noteq> planDeps prev then planEffect ?p1 else ?p1)"
    by (simp add: renderPass_def Let_def)
  have "case find (\<lambda>s. quality s = selectedQuality ?r1) (sources ?r1) of
             None \<Rightarrow> True | Some source \<Rightarrow> url source = currentSourceUrl ?r1"
    unfolding r1 by (simp add: planEffect_matches qualityEffect_matches')
  then have "settled (commitSrc ?r1)"
    by (rule settled_commitSrc)
  then show ?thesis
    by (simp add: rerender_def renderPass_def [of cur] Let_def planDeps_renderPass
          qualityEffect_settled)
qed

lemma rerender_settled:
  "renderPass (renderPass prev cur) (rerender prev cur) = rerender prev cur"
  by (simp add: rerender_commit renderPass_def [of "renderPass prev cur"] Let_def
        commitSrc_deps commitSrc_idem)

subsection \<open>Creation\<close>

text \<open>The two effects, which both run after the first render, change nothing.\<close>

lemma mount_effects:
  "planEffect (qualityEffect (createVideoPlayer srcs plan)) = createVideoPlayer srcs plan"
proof -
  have "qualityEffect (createVideoPlayer srcs plan) = createVideoPlayer srcs plan"
    by (rule qualityEffect_settled) (rule settled_create)
  then show ?thesis
    by (simp add: planEffect_def createVideoPlayer_def)
qed

lemma sources_rerender: "sources (rerender prev cur) = sources cur"
  by (simp add: rerender_def renderPass_def Let_def planEffect_fields qualityEffect_fields
        commitSrc_fields)

lemma sources_step: "sources (step e p) = sources p"
  by (cases e)
     (simp_all add: handleQualityChange_def handleTimeUpdate_def onPlay_def onPause_def
        setPlan_def loadedData_def Let_def sources_rerender split: option.splits)

lemma sources_run: "sources (run es p) = sources p"
  unfolding run_def by (induction es arbitrary: p) (simp_all add: sources_step)

lemma url_renderPass:
  "sources cur = [] \<Longrightarrow> currentSourceUrl (renderPass prev cur) = currentSourceUrl cur"
  by (simp add: renderPass_def Let_def qualityEffect_def commitSrc_fields planEffect_fields)

lemma sources_renderPass: "sources (renderPass prev cur) = sources cur"
  by (simp add: renderPass_def Let_def planEffect_fields qualityEffect_fields commitSrc_fields)

lemma url_rerender:
  "sources cur = [] \<Longrightarrow> currentSourceUrl (rerender prev cur) = currentSourceUrl cur"
  by (simp add: rerender_def url_renderPass sources_renderPass)

lemma url_step: "sources p = [] \<Longrightarrow> currentSourceUrl (step e p) = currentSourceUrl p"
  by (cases e)
     (simp_all add: handleQualityChange_def handleTimeUpdate_def onPlay_def onPause_def
        setPlan_def loadedData_def Let_def url_rerender split: option.splits)

lemma url_run: "sources p = [] \<Longrightarrow> currentSourceUrl (run es p) = currentSourceUrl p"
  unfolding run_def
  by (induction es arbitrary: p) (simp_all add: url_step sources_step)

text \<open>
  Claim C9 as the specification states it fails: a player is created from the empty
  list of sources.
\<close>

theorem empty_sources_counterexample:
  "sources (createVideoPlayer [] freePlan) = []
   \<and> selectedQuality (createVideoPlayer [] freePlan) = []
   \<and> currentSourceUrl (createVideoPlayer [] freePlan) = []"
  by (simp add: createVideoPlayer_def)

text \<open>
  Claim C9, amended: creating a player with an empty list of sources is not rejected.
  The player starts paused at position 0 with the empty string as selected quality and
  as current locator, and after any sequence of events it still has no source and the
  empty locator.
\<close>

theorem empty_sources_accepted:
  "createVideoPlayer [] plan =
     \<lparr>sources = [], currentPlan = plan, currentSourceUrl = [], selectedQuality = [],
      isVideoPlayingBeforeQualityChange = False, timeLimitReached = False,
      video = \<lparr>src = [], currentTime = 0, paused = True, onloadeddata = None\<rparr>,
      notified = []\<rparr>
   \<and> sources (run es (createVideoPlayer [] plan)) = []
   \<and> currentSourceUrl (run es (createVideoPlayer [] plan)) = []"
proof -
  have "sources (createVideoPlayer [] plan) = []"
    by (simp add: createVideoPlayer_def)
  then show ?thesis
    by (simp add: sources_run url_run) (simp add: createVideoPlayer_def)
qed

theorem empty_sources_accepted_witness:
  "selectedQuality (createVideoPlayer [] freePlan) = []
   \<and> sources (run [UserPlay, SelectQuality ''480p'', LoadedData] (createVideoPlayer [] freePlan)) = []
   \<and> currentSourceUrl (run [UserPlay, SelectQuality ''480p'', LoadedData]
         (createVideoPlayer [] freePlan)) = []"
proof -
  from empty_sources_accepted [of freePlan "[UserPlay, SelectQuality ''480p'', LoadedData]"]
  have "sources (run [UserPlay, SelectQuality ''480p'', LoadedData]
          (createVideoPlayer [] freePlan)) = []
      \<and> currentSourceUrl (run [UserPlay, SelectQuality ''480p'', LoadedData]
          (createVideoPlayer [] freePlan)) = []"
    by blast
  moreover have "selectedQuality (createVideoPlayer [] freePlan) = []"
    by (simp add: createVideoPlayer_def)
  ultimately show ?thesis by blast
qed

subsection \<open>The time limit\<close>

lemma step_TimeUpdate_below:
  assumes "timeLimitMinutes (currentPlan p) = Some m" and "t < m * 60"
  shows "step (TimeUpdate t) p = p\<lparr>video := (video p)\<lparr>currentTime := t\<rparr>\<rparr>"
  using assms by (simp add: handleTimeUpdate_def Let_def)

lemma step_TimeUpdate_lock:
  assumes "settled p" and "timeLimitMinutes (currentPlan p) = Some m"
    and "\<not> timeLimitReached p" and "m * 60 \<le> t"
  shows "step (TimeUpdate t) p =
           p\<lparr>video := (video p)\<lparr>currentTime := t, paused := True\<rparr>, timeLimitReached := True,
             notified := notified p @ [OnTimeLimitReached, LimitAlert (name (currentPlan p)) m]\<rparr>"
proof -
  let ?cur = "p\<lparr>video := (video p)\<lparr>currentTime := t, paused := True\<rparr>, timeLimitReached := True,
             notified := notified p @ [OnTimeLimitReached, LimitAlert (name (currentPlan p)) m]\<rparr>"
  from assms(1) have "settled ?cur"
    by (simp add: settled_def split: option.splits)
  then have "rerender (p\<lparr>video := (video p)\<lparr>currentTime := t\<rparr>\<rparr>) ?cur = ?cur"
    by (simp add: rerender_of_settled planDeps_def)
  with assms show ?thesis
    by (simp add: handleTimeUpdate_def Let_def pause_def)
qed

lemma step_UserPlay:
  assumes "settled p"
  shows "\<not> paused (video (step UserPlay p))
         \<and> isVideoPlayingBeforeQualityChange (step UserPlay p)
         \<and> notified (step UserPlay p) = notified p"
proof -
  let ?cur = "p\<lparr>video := play (video p), isVideoPlayingBeforeQualityChange := True\<rparr>"
  from assms have "settled ?cur"
    by (simp add: settled_def play_def split: option.splits)
  then have "rerender (p\<lparr>video := play (video p)\<rparr>) ?cur
      = (if planDeps ?cur \<noteq> planDeps (p\<lparr>video := play (video p)\<rparr>) then planEffect ?cur else ?cur)"
    by (rule rerender_of_settled)
  then show ?thesis
    by (simp add: onPlay_def planEffect_def Let_def play_def)
qed

text \<open>Notices are only ever added, and the flag is only raised together with a notice.\<close>

lemma notified_renderPass: "notified (renderPass prev cur) = notified cur"
  by (simp add: renderPass_def Let_def planEffect_fields qualityEffect_fields commitSrc_fields)

lemma flag_renderPass: "timeLimitReached (renderPass prev cur) \<Longrightarrow> timeLimitReached cur"
  by (simp add: renderPass_def Let_def planEffect_fields qualityEffect_fields commitSrc_fields
        split: if_splits)

lemma notified_rerender: "notified (rerender prev cur) = notified cur"
  by (simp add: rerender_def notified_renderPass)

lemma flag_notified_rerender:
  assumes "timeLimitReached cur \<longrightarrow> notified cur \<noteq> []"
  shows "timeLimitReached (rerender prev cur) \<longrightarrow> notified (rerender prev cur) \<noteq> []"
  using assms flag_renderPass [of cur "renderPass prev cur"] flag_renderPass [of prev cur]
  by (auto simp: rerender_def notified_renderPass)

lemma flag_notified_step:
  assumes "timeLimitReached p \<longrightarrow> notified p \<noteq> []"
  shows "timeLimitReached (step e p) \<longrightarrow> notified (step e p) \<noteq> []"
proof (cases e)
  case (SelectQuality q)
  show ?thesis unfolding SelectQuality step.simps handleQualityChange_def Let_def
    by (rule flag_notified_rerender) (use assms in simp)
next
  case (TimeUpdate t)
  show ?thesis unfolding TimeUpdate step.simps handleTimeUpdate_def Let_def
    using assms by (auto split: option.splits simp: notified_rerender)
next
  case UserPlay
  show ?thesis unfolding UserPlay step.simps onPlay_def
    by (rule flag_notified_rerender) (use assms in simp)
next
  case UserPause
  show ?thesis unfolding UserPause step.simps onPause_def
    by (rule flag_notified_rerender) (use assms in simp)
next
  case PlayFired
  show ?thesis unfolding PlayFired step.simps onPlay_def
    by (rule flag_notified_rerender) (use assms in simp)
next
  case PauseFired
  show ?thesis unfolding PauseFired step.simps onPause_def
    by (rule flag_notified_rerender) (use assms in simp)
next
  case LoadedData
  show ?thesis unfolding LoadedData
    using assms by (simp add: loadedData_def Let_def split: option.splits)
next
  case (SetPlan plan)
  show ?thesis unfolding SetPlan step.simps setPlan_def
    by (rule flag_notified_rerender) (use assms in simp)
qed

lemma flag_notified_run:
  "(timeLimitReached p \<longrightarrow> notified p \<noteq> []) \<Longrightarrow>
   timeLimitReached (run es p) \<longrightarrow> notified (run es p) \<noteq> []"
  unfolding run_def
proof (induction es arbitrary: p)
  case Nil
  then show ?case by simp
next
  case (Cons e es)
  from Cons.prems have "timeLimitReached (step e p) \<longrightarrow> notified (step e p) \<noteq> []"
    by (rule flag_notified_step)
  then show ?case using Cons.IH by simp
qed

text \<open>
  Claim C2 as the specification states it fails in its last part: the player has no
  handler that rejects play. After the tick at 300 seconds has locked the Free plan, a
  play from the controls starts the video and raises no notice, whether or not the
  \<open>pause\<close> event of the lock has been delivered before.
\<close>

theorem play_while_locked_counterexample:
  "timeLimitReached (run [UserPlay, TimeUpdate 299, TimeUpdate 300]
      (createVideoPlayer videoSources freePlan))
   \<and> paused (video (run [UserPlay, TimeUpdate 299, TimeUpdate 300]
      (createVideoPlayer videoSources freePlan)))
   \<and> notified (run [UserPlay, TimeUpdate 299, TimeUpdate 300]
      (createVideoPlayer videoSources freePlan)) = [OnTimeLimitReached, LimitAlert ''Free'' 5]
   \<and> \<not> paused (video (run [UserPlay, TimeUpdate 299, TimeUpdate 300, PauseFired, UserPlay]
      (createVideoPlayer videoSources freePlan)))
   \<and> notified (run [UserPlay, TimeUpdate 299, TimeUpdate 300, PauseFired, UserPlay]
      (createVideoPlayer videoSources freePlan)) = [OnTimeLimitReached, LimitAlert ''Free'' 5]
   \<and> \<not> paused (video (run [UserPlay, TimeUpdate 299, TimeUpdate 300, UserPlay]
      (createVideoPlayer videoSources freePlan)))
   \<and> notified (run [UserPlay, TimeUpdate 299, TimeUpdate 300, UserPlay]
      (createVideoPlayer videoSources freePlan)) = [OnTimeLimitReached, LimitAlert ''Free'' 5]"
  by code_simp

text \<open>
  Claim C2, amended. In every state \<open>p\<close> that a player reaches by a sequence of events,
  with a plan limited to \<open>m\<close> minutes: a tick at a position below \<open>m * 60\<close> changes
  nothing but the position, so a playing video keeps playing; as long as no notice was
  raised, \<open>timeLimitReached\<close> is false; a tick at a position of at least \<open>m * 60\<close> while
  \<open>timeLimitReached\<close> is false pauses the video, sets \<open>timeLimitReached\<close> and raises the
  callback and the alert once; and a play from the controls is never rejected: the
  video plays, \<open>isVideoPlayingBeforeQualityChange\<close> is set, and no notice is raised by
  it.
\<close>

theorem time_limit_lock:
  assumes reach: "p = run es (createVideoPlayer srcs plan)"
    and limit: "timeLimitMinutes (currentPlan p) = Some m"
  shows "(t < m * 60 \<longrightarrow> step (TimeUpdate t) p = p\<lparr>video := (video p)\<lparr>currentTime := t\<rparr>\<rparr>)
       \<and> (notified p = [] \<longrightarrow> \<not> timeLimitReached p)
       \<and> (m * 60 \<le> t \<and> \<not> timeLimitReached p \<longrightarrow>
            step (TimeUpdate t) p =
              p\<lparr>video := (video p)\<lparr>currentTime := t, paused := True\<rparr>,
                timeLimitReached := True,
                notified := notified p @ [OnTimeLimitReached, LimitAlert (name (currentPlan p)) m]\<rparr>)
       \<and> \<not> paused (video (step UserPlay p))
       \<and> isVideoPlayingBeforeQualityChange (step UserPlay p)
       \<and> notified (step UserPlay p) = notified p"
proof -
  have st: "settled p"
    unfolding reach by (rule settled_run) (rule settled_create)
  have "timeLimitReached p \<longrightarrow> notified p \<noteq> []"
    unfolding reach by (rule flag_notified_run) (simp add: createVideoPlayer_def)
  then have first: "notified p = [] \<longrightarrow> \<not> timeLimitReached p"
    by blast
  from limit have below: "t < m * 60 \<longrightarrow> step (TimeUpdate t) p = p\<lparr>video := (video p)\<lparr>currentTime := t\<rparr>\<rparr>"
    by (blast intro: step_TimeUpdate_below)
  from st limit have lock: "m * 60 \<le> t \<and> \<not> timeLimitReached p \<longrightarrow>
            step (TimeUpdate t) p =
              p\<lparr>video := (video p)\<lparr>currentTime := t, paused := True\<rparr>,
                timeLimitReached := True,
                notified := notified p @ [OnTimeLimitReached, LimitAlert (name (currentPlan p)) m]\<rparr>"
    by (blast intro: step_TimeUpdate_lock)
  from below first lock step_UserPlay [OF st] show ?thesis
    by blast
qed

theorem time_limit_lock_witness:
  "timeLimitMinutes (currentPlan (run [UserPlay, TimeUpdate 299]
      (createVideoPlayer videoSources freePlan))) = Some 5
   \<and> notified (run [UserPlay, TimeUpdate 299] (createVideoPlayer videoSources freePlan)) = []
   \<and> \<not> paused (video (run [UserPlay, TimeUpdate 299] (createVideoPlayer videoSources freePlan)))
   \<and> paused (video (step (TimeUpdate 300)
        (run [UserPlay, TimeUpdate 299] (createVideoPlayer videoSources freePlan))))
   \<and> timeLimitReached (step (TimeUpdate 300)
        (run [UserPlay, TimeUpdate 299] (createVideoPlayer videoSources freePlan)))
   \<and> notified (step (TimeUpdate 300)
        (run [UserPlay, TimeUpdate 299] (createVideoPlayer videoSources freePlan)))
      = [OnTimeLimitReached, LimitAlert ''Free'' 5]"
proof -
  let ?p = "run [UserPlay, TimeUpdate 299] (createVideoPlayer videoSources freePlan)"
  have plan: "currentPlan ?p = freePlan"
    by code_simp
  have lim: "timeLimitMinutes (currentPlan ?p) = Some 5"
    by (simp add: plan) (simp add: freePlan_def)
  have n: "notified ?p = []"
    by code_simp
  have pl: "\<not> paused (video ?p)"
    by code_simp
  have nm: "name (currentPlan ?p) = ''Free''"
    by (simp add: plan) (simp add: freePlan_def)
  from time_limit_lock [OF refl lim, of 300] n
  have "step (TimeUpdate 300) ?p =
          ?p\<lparr>video := (video ?p)\<lparr>currentTime := 300, paused := True\<rparr>,
            timeLimitReached := True,
            notified := notified ?p @ [OnTimeLimitReached, LimitAlert (name (currentPlan ?p)) 5]\<rparr>"
    by simp
  then have "paused (video (step (TimeUpdate 300) ?p))
      \<and> timeLimitReached (step (TimeUpdate 300) ?p)
      \<and> notified (step (TimeUpdate 300) ?p) = [OnTimeLimitReached, LimitAlert ''Free'' 5]"
    by (simp add: n nm)
  with lim n pl show ?thesis by blast
qed

text \<open>
  Claim C3 fails on the code. The plan-change effect also depends on
  \<open>isVideoPlayingBeforeQualityChange\<close>, so it runs on every \<open>play\<close> and \<open>pause\<close> event
  that changes this flag and resets \<open>timeLimitReached\<close>. Under the Free plan the tick at
  300 seconds sets \<open>timeLimitReached\<close> and pauses; the \<open>pause\<close> event of that very pause
  resets it, with the plan unchanged; and the next tick, at 310 seconds with the video
  still paused, raises the callback and the alert a second time.
\<close>

theorem limit_flag_reset_by_pause_event:
  "timeLimitReached (run [UserPlay, TimeUpdate 300] (createVideoPlayer videoSources freePlan))
   \<and> \<not> timeLimitReached (run [UserPlay, TimeUpdate 300, PauseFired]
        (createVideoPlayer videoSources freePlan))
   \<and> currentPlan (run [UserPlay, TimeUpdate 300, PauseFired]
        (createVideoPlayer videoSources freePlan)) = freePlan
   \<and> paused (video (run [UserPlay, TimeUpdate 300, PauseFired]
        (createVideoPlayer videoSources freePlan)))
   \<and> notified (run [UserPlay, TimeUpdate 300, PauseFired, TimeUpdate 310]
        (createVideoPlayer videoSources freePlan))
      = [OnTimeLimitReached, LimitAlert ''Free'' 5, OnTimeLimitReached, LimitAlert ''Free'' 5]"
  by code_simp

subsection \<open>Quality switches\<close>

text \<open>
  One switch to another source, followed by the end of its loading, keeps the position
  and the playing state.
\<close>

lemma single_switch_preserves_position:
  assumes st: "settled p"
    and pos: "0 \<le> currentTime (video p)"
    and found: "find (\<lambda>s. quality s = q) (sources p) = Some source"
    and other: "url source \<noteq> currentSourceUrl p"
  shows "currentTime (video (run [SelectQuality q, LoadedData] p)) = currentTime (video p)
         \<and> paused (video (run [SelectQuality q, LoadedData] p)) = paused (video p)
         \<and> src (video (run [SelectQuality q, LoadedData] p)) = url source"
proof -
  define cur where "cur =
    (if \<not> paused (video p)
     then p\<lparr>isVideoPlayingBeforeQualityChange := True, video := pause (video p)\<rparr>
     else p\<lparr>isVideoPlayingBeforeQualityChange := False\<rparr>)\<lparr>selectedQuality := q\<rparr>"
  have cur_fields: "sources cur = sources p" "selectedQuality cur = q"
    "currentSourceUrl cur = currentSourceUrl p" "src (video cur) = src (video p)"
    "currentTime (video cur) = currentTime (video p)"
    "isVideoPlayingBeforeQualityChange cur = (\<not> paused (video p))"
    by (simp_all add: cur_def pause_def)
  from st found other have sel: "q \<noteq> selectedQuality p"
    by (auto simp: settled_def)
  then have qd: "qualityDeps cur \<noteq> qualityDeps p"
    by (simp add: qualityDeps_def cur_fields)
  from st have c0: "commitSrc cur = cur"
    by (simp add: commitSrc_def setSrc_def settled_def cur_fields)
  let ?h = "\<lparr>currentTime_h = currentTime (video p),
             isVideoPlayingBeforeQualityChange_h = (\<not> paused (video p))\<rparr>"
  let ?q1 = "qualityEffect cur"
  have q1: "currentSourceUrl ?q1 = url source" "onloadeddata (video ?q1) = Some ?h"
    using found other by (simp_all add: qualityEffect_def cur_fields)
  let ?r1 = "renderPass p cur"
  have r1: "?r1 = (if planDeps cur \<noteq> planDeps p then planEffect ?q1 else ?q1)"
    using qd by (simp add: renderPass_def Let_def c0)
  have r1_fields: "currentSourceUrl ?r1 = url source" "onloadeddata (video ?r1) = Some ?h"
    "src (video ?r1) = src (video p)"
    by (simp_all add: r1 planEffect_fields qualityEffect_fields q1 cur_fields)
  have hq: "handleQualityChange q p = commitSrc ?r1"
    by (simp add: handleQualityChange_def Let_def cur_def rerender_commit)
  from st other have "src (video ?r1) \<noteq> currentSourceUrl ?r1"
    by (simp add: r1_fields settled_def)
  then have v: "video (handleQualityChange q p)
      = (video ?r1)\<lparr>src := url source, currentTime := 0, paused := True\<rparr>"
    by (simp add: hq commitSrc_def setSrc_def r1_fields)
  have "run [SelectQuality q, LoadedData] p = loadedData (handleQualityChange q p)"
    by (simp add: run_def)
  then show ?thesis
    using pos by (simp add: loadedData_def v r1_fields Let_def play_def)
qed

text \<open>
  Claim C1 fails on the code. A switch from 360p to 480p at 120 seconds while playing
  ends, after loading, at 120 seconds and playing. When a second switch, to 720p,
  comes before the first one has loaded, the effect reads the position 0 of the loading
  element and the paused state, and replaces the stored \<open>onloadeddata\<close> handler: after
  loading, the position is 0 and the video is paused, whether or not the \<open>pause\<close> event
  of the first switch was delivered in between.
\<close>

theorem rapid_quality_switch_resets_position:
  "currentTime (video (run [UserPlay, TimeUpdate 120, SelectQuality ''480p'', LoadedData]
      (createVideoPlayer videoSources goldPlan))) = 120
   \<and> \<not> paused (video (run [UserPlay, TimeUpdate 120, SelectQuality ''480p'', LoadedData]
      (createVideoPlayer videoSources goldPlan)))
   \<and> currentTime (video (run [UserPlay, TimeUpdate 120, SelectQuality ''480p'',
        SelectQuality ''720p'', LoadedData] (createVideoPlayer videoSources goldPlan))) = 0
   \<and> paused (video (run [UserPlay, TimeUpdate 120, SelectQuality ''480p'',
        SelectQuality ''720p'', LoadedData] (createVideoPlayer videoSources goldPlan)))
   \<and> currentTime (video (run [UserPlay, TimeUpdate 120, SelectQuality ''480p'', PauseFired,
        SelectQuality ''720p'', LoadedData] (createVideoPlayer videoSources goldPlan))) = 0
   \<and> paused (video (run [UserPlay, TimeUpdate 120, SelectQuality ''480p'', PauseFired,
        SelectQuality ''720p'', LoadedData] (createVideoPlayer videoSources goldPlan)))"
  by code_simp

end
